theory Spec2Isabelle
  imports Main "HOL-Library.AList"
begin

section \<open>The transport layer as the dispatcher sees it\<close>

text \<open>
  The dispatcher of \<^verbatim>\<open>minima.go\<close> talks to three things of net/http and log:
  the request (its method, its path, and what \<^verbatim>\<open>ParseForm\<close> answers), the
  response writer, and the logger. A request is a value; \<^verbatim>\<open>ParseForm r\<close> is the
  error \<^verbatim>\<open>r.ParseForm()\<close> returns, \<open>None\<close> for \<^verbatim>\<open>nil\<close>.
\<close>

record http_Request =
  Method :: string
  Path :: string
  ParseForm :: "string option"

text \<open>
  One dispatch serves one connection. \<open>written\<close> holds the chunks handed to
  \<^verbatim>\<open>Write\<close> of that connection's response writer, oldest first, and \<open>logged\<close>
  the lines printed through package log. A \<open>ResponseWriter\<close> is the handle of the sink.
\<close>

type_synonym ResponseWriter = nat

record world =
  written :: "string list"
  logged :: "string list"

definition Write :: "ResponseWriter \<Rightarrow> string \<Rightarrow> world \<Rightarrow> world" where
  "Write w b wd = wd\<lparr>written := written wd @ [b]\<rparr>"

definition log_Print :: "string \<Rightarrow> world \<Rightarrow> world" where
  "log_Print line wd = wd\<lparr>logged := logged wd @ [line]\<rparr>"

text \<open>The run-time panics of the Go code, as values.\<close>

datatype panic =
  NilDereference
  | IndexOutOfRange
  | NilMapAssignment
  | LogPanic string

datatype outcome = Returned | Panicked panic

section \<open>Requests, responses and handlers\<close>

text \<open>
  Modelled from the spec: the wrappers \<^verbatim>\<open>Response\<close> and \<^verbatim>\<open>Request\<close> and
  their constructors \<^verbatim>\<open>response\<close> and \<^verbatim>\<open>request\<close> are not among the sources
  ("the response/request convenience wrappers" are external collaborators). Only the
  fields that \<^verbatim>\<open>minima.go\<close> reads or writes are kept: \<^verbatim>\<open>res.ref\<close>,
  \<^verbatim>\<open>req.ref\<close> and \<^verbatim>\<open>req.Params\<close>. The third argument of \<^verbatim>\<open>response\<close>,
  the address \<^verbatim>\<open>&m.properties\<close>, is what \<open>invoke\<close> below stands for.
\<close>

type_synonym params = "(string \<times> string) list"

record Response =
  res_ref :: ResponseWriter

record Request =
  req_ref :: http_Request
  Params :: params

definition response :: "ResponseWriter \<Rightarrow> http_Request \<Rightarrow> Response" where
  "response w r = \<lparr>res_ref = w\<rparr>"

definition request :: "http_Request \<Rightarrow> Request" where
  "request r = \<lparr>req_ref = r, Params = []\<rparr>"

text \<open>
  The properties map of an instance is \<^verbatim>\<open>map[string]interface{}\<close>; \<open>None\<close> is the
  \<^verbatim>\<open>nil\<close> map. A Minima handler receives the response wrapper, which carries the
  address of that map, and the request wrapper: it can write to the sink, log, and
  read or replace the properties. A raw net/http handler receives the writer and the
  request only. Handlers are taken to return; a handler that panics unwinds through
  \<^verbatim>\<open>ServeHTTP\<close>, which has no recover, and a handler that is a closure over the
  instance itself is outside this model.
\<close>

type_synonym 'v properties = "(string \<rightharpoonup> 'v) option"

type_synonym 'v Handler =
  "Response \<Rightarrow> Request \<Rightarrow> 'v properties \<times> world \<Rightarrow> 'v properties \<times> world"

type_synonym HandlerFunc = "ResponseWriter \<Rightarrow> http_Request \<Rightarrow> world \<Rightarrow> world"

section \<open>The first variant: struct Minima\<close>

text \<open>
  Modelled from the spec: the struct \<^verbatim>\<open>Router\<close> is not among the sources (the
  specification has it own "one Route Table per HTTP method" and "a not-found
  handler"). \<^verbatim>\<open>ServeHTTP\<close> reads two of its fields:
  \<^verbatim>\<open>routes\<close>, a Go map from the method to a route collection of some type \<open>'t\<close>
  (a missing key reads as the zero value, so the map is a total function), and
  \<^verbatim>\<open>notfound\<close>, a handler that may be \<^verbatim>\<open>nil\<close>.
\<close>

record ('t, 'v) Router =
  routes :: "string \<Rightarrow> 't"
  notfound :: "'v Handler option"

record http_Server =
  Addr :: string

text \<open>
  The struct, without \<^verbatim>\<open>Config\<close>, whose type is not among the sources and which
  no function below reads. \<^verbatim>\<open>server\<close> is a pointer, \<open>None\<close> when \<^verbatim>\<open>nil\<close>; its
  \<^verbatim>\<open>Handler\<close> field is the instance itself and is left out. The two durations are
  integers.
\<close>

record ('t, 'v) Minima =
  server :: "http_Server option"
  started :: bool
  Timeout :: int
  router :: "('t, 'v) Router"
  minmiddleware :: "'v Handler list"
  rawmiddleware :: "HandlerFunc list"
  properties :: "'v properties"
  drain :: int

type_synonym ('t, 'v) state = "('t, 'v) Minima \<times> world"

text \<open>\<^verbatim>\<open>New\<close>: every field the literal does not name has its zero value. The router
  is what \<^verbatim>\<open>NewRouter()\<close>, which is not among the sources, returns: a parameter.\<close>

definition Minima_New :: "('t, 'v) Router \<Rightarrow> ('t, 'v) Minima" where
  "Minima_New NewRouter =
     \<lparr>server = None, started = False, Timeout = 0, router = NewRouter, minmiddleware = [],
      rawmiddleware = [], properties = None, drain = 0\<rparr>"

text \<open>
  \<^verbatim>\<open>Listen\<close>. \<^verbatim>\<open>log.Panicf\<close> prints the message and panics with it.
  \<^verbatim>\<open>ListenAndServe\<close> of net/http is a parameter; its result is what
  \<^verbatim>\<open>Listen\<close> returns.
\<close>

definition already_running :: "string \<Rightarrow> string" where
  "already_running addr =
     ''Minimia'' @ [CHR 0x27] @ ''s instance is already running at '' @ addr @ ''.''"

definition Minima_Listen ::
  "(http_Server \<Rightarrow> 'e) \<Rightarrow> string \<Rightarrow> ('t, 'v) state \<Rightarrow> (panic + 'e) \<times> ('t, 'v) state" where
  "Minima_Listen ListenAndServe addr s =
     (if started (fst s) then
        (case server (fst s) of
           None \<Rightarrow> (Inl NilDereference, s)
         | Some srv \<Rightarrow>
             (Inl (LogPanic (already_running (Addr srv))),
              apsnd (log_Print (already_running (Addr srv))) s))
      else
        let s1 = apfst (\<lambda>m. m\<lparr>server := Some \<lparr>Addr = addr\<rparr>\<rparr>) s;
            s2 = apfst (\<lambda>m. m\<lparr>started := True\<rparr>) s1
        in (Inr (ListenAndServe \<lparr>Addr = addr\<rparr>), s2))"

text \<open>\<^verbatim>\<open>SetProp\<close> and \<^verbatim>\<open>GetProp\<close>: a write to the nil map panics, a read of it
  gives the zero value of \<^verbatim>\<open>interface{}\<close>, here \<open>None\<close>.\<close>

definition Minima_SetProp :: "string \<Rightarrow> 'v \<Rightarrow> ('t, 'v) Minima \<Rightarrow> panic + ('t, 'v) Minima" where
  "Minima_SetProp key val m =
     (case properties m of
        None \<Rightarrow> Inl NilMapAssignment
      | Some ps \<Rightarrow> Inr (m\<lparr>properties := Some (ps(key \<mapsto> val))\<rparr>))"

definition Minima_GetProp :: "string \<Rightarrow> ('t, 'v) Minima \<Rightarrow> 'v option" where
  "Minima_GetProp key m = (case properties m of None \<Rightarrow> None | Some ps \<Rightarrow> ps key)"

text \<open>\<^verbatim>\<open>Use\<close> and \<^verbatim>\<open>UseRaw\<close> append to the two stacks.\<close>

definition Minima_Use :: "'v Handler list \<Rightarrow> ('t, 'v) Minima \<Rightarrow> ('t, 'v) Minima" where
  "Minima_Use handler m = m\<lparr>minmiddleware := minmiddleware m @ handler\<rparr>"

definition Minima_UseRaw :: "HandlerFunc list \<Rightarrow> ('t, 'v) Minima \<Rightarrow> ('t, 'v) Minima" where
  "Minima_UseRaw handler m = m\<lparr>rawmiddleware := rawmiddleware m @ handler\<rparr>"

text \<open>
  Calling a handler. A Minima handler works on the sink, the log and the map behind
  \<^verbatim>\<open>&m.properties\<close>: \<open>invoke\<close> hands it the current map of the instance and stores
  what it leaves there. A raw handler works on the sink and the log.
\<close>

definition invoke ::
  "('v properties \<times> world \<Rightarrow> 'v properties \<times> world) \<Rightarrow> ('t, 'v) state \<Rightarrow> ('t, 'v) state" where
  "invoke h s =
     (case h (properties (fst s), snd s) of
        (ps, wd) \<Rightarrow> ((fst s)\<lparr>properties := ps\<rparr>, wd))"

definition invoke_raw :: "(world \<Rightarrow> world) \<Rightarrow> ('t, 'v) state \<Rightarrow> ('t, 'v) state" where
  "invoke_raw h s = (fst s, h (snd s))"

text \<open>\<^verbatim>\<open>ServeMiddleware\<close>, with its two early returns.\<close>

definition Minima_ServeMiddleware :: "Response \<Rightarrow> Request \<Rightarrow> ('t, 'v) state \<Rightarrow> ('t, 'v) state" where
  "Minima_ServeMiddleware res req s =
     (if length (rawmiddleware (fst s)) = 0 then s
      else
        let s1 = fold (\<lambda>raw. invoke_raw (raw (res_ref res) (req_ref req))) (rawmiddleware (fst s)) s
        in if length (minmiddleware (fst s1)) = 0 then s1
           else fold (\<lambda>min. invoke (min res req)) (minmiddleware (fst s1)) s1)"

text \<open>
  \<^verbatim>\<open>ServeHTTP\<close>. The lookup \<^verbatim>\<open>Get\<close> of the route collection is not among the
  sources and is a parameter: it answers a handler (\<open>None\<close> for a \<^verbatim>\<open>nil\<close> func),
  the captured parameters, and whether a route matched. Calling a \<^verbatim>\<open>nil\<close> func
  panics.
\<close>

definition Minima_ServeHTTP ::
  "('t \<Rightarrow> string \<Rightarrow> 'v Handler option \<times> params \<times> bool) \<Rightarrow>
   ResponseWriter \<Rightarrow> http_Request \<Rightarrow> ('t, 'v) state \<Rightarrow> outcome \<times> ('t, 'v) state" where
  "Minima_ServeHTTP Get w r s =
     (case Get (routes (router (fst s)) (Method r)) (Path r) of
        (f, params, match) \<Rightarrow>
          if match then
            (case ParseForm r of
               Some err \<Rightarrow> (Returned, apsnd (log_Print (''Error parsing form: '' @ err)) s)
             | None \<Rightarrow>
                 let res = response w r;
                     req = request r;
                     req = req\<lparr>Params := params\<rparr>;
                     s1 = Minima_ServeMiddleware res req s
                 in (case f of
                       None \<Rightarrow> (Panicked NilDereference, s1)
                     | Some h \<Rightarrow> (Returned, invoke (h res req) s1)))
          else
            let res = response w r;
                req = request r
            in (case notfound (router (fst s)) of
                  Some h \<Rightarrow> (Returned, invoke (h res req) s)
                | None \<Rightarrow> (Returned, apsnd (Write w ''No matching route found'') s)))"

section \<open>The second variant: struct minima\<close>

text \<open>
  The second file of the sources declares \<^verbatim>\<open>minima\<close>, another shape of the same
  dispatcher, whose \<^verbatim>\<open>ServeHTTP\<close> ranges over \<^verbatim>\<open>m.router.routes[q.Method]\<close>
  itself.
\<close>

text \<open>
  Modelled from the spec: the router of this variant and the elements of its route
  lists are not among the sources ("an ordered list of (Route Pattern, Handler Chain)
  pairs"). An element is a record with its \<^verbatim>\<open>Handlers\<close>, of some type \<open>'h\<close>, and
  a pattern of some type \<open>'pat\<close>; the router holds one list for each method, and a
  missing key reads as the empty list.
\<close>

record ('pat, 'h) Route =
  pattern :: 'pat
  Handlers :: "'h list"

record ('pat, 'h) Router' =
  routes' :: "string \<Rightarrow> ('pat, 'h) Route list"

text \<open>
  The struct, with the three fields that \<^verbatim>\<open>ServeHTTP\<close> reads; the plugin stack is
  of some type \<open>'pl\<close>. Fields that clash with the first variant carry a prime.
\<close>

record ('pat, 'h, 'pl, 'v) minima =
  router' :: "('pat, 'h) Router'"
  properties' :: "'v properties"
  Middleware :: 'pl

type_synonym ('pat, 'h, 'pl, 'v) state' = "('pat, 'h, 'pl, 'v) minima \<times> world"

text \<open>How the \<^verbatim>\<open>for\<close> loop of the second \<^verbatim>\<open>ServeHTTP\<close> is left: it ran to its
  end or hit \<^verbatim>\<open>break\<close> (with the value of \<^verbatim>\<open>match\<close>), the function returned
  from inside it, or it panicked.\<close>

datatype 's loop_exit =
  Completed bool 's
  | ReturnedInLoop 's
  | PanickedInLoop panic 's

text \<open>
  Three functions that \<^verbatim>\<open>ServeHTTP\<close> calls are not among the sources and are
  parameters: \<^verbatim>\<open>matchingPath\<close> of an element, which only answers;
  \<^verbatim>\<open>ServePlugin\<close> of the plugin stack and \<^verbatim>\<open>Next\<close> of the router, which may
  change the instance, the sink and the log.

  The body of the loop for one element \<^verbatim>\<open>requestQuery\<close> that matched with
  \<^verbatim>\<open>Params\<close> (here \<open>Params'\<close>): \<^verbatim>\<open>Handlers[currentRequest]\<close> reads index 0
  and panics on an empty chain, after the plugins ran.
\<close>

definition minima_matched ::
  "('pl \<Rightarrow> Response \<Rightarrow> Request \<Rightarrow> ('pat, 'h, 'pl, 'v) state' \<Rightarrow> ('pat, 'h, 'pl, 'v) state') \<Rightarrow>
   (('pat, 'h) Router' \<Rightarrow> 'ps \<Rightarrow> 'h \<Rightarrow> Response \<Rightarrow> Request \<Rightarrow>
      ('pat, 'h, 'pl, 'v) state' \<Rightarrow> ('pat, 'h, 'pl, 'v) state') \<Rightarrow>
   ResponseWriter \<Rightarrow> http_Request \<Rightarrow> ('pat, 'h) Route \<Rightarrow> 'ps \<Rightarrow>
   ('pat, 'h, 'pl, 'v) state' \<Rightarrow> ('pat, 'h, 'pl, 'v) state' loop_exit" where
  "minima_matched ServePlugin Next w q requestQuery Params' s =
     (case ParseForm q of
        Some err \<Rightarrow> ReturnedInLoop (apsnd (log_Print (''Error parsing form: '' @ err)) s)
      | None \<Rightarrow>
          let res = response w q;
              req = request q;
              s1 = ServePlugin (Middleware (fst s)) res req s
          in (case Handlers requestQuery of
                [] \<Rightarrow> PanickedInLoop IndexOutOfRange s1
              | h # _ \<Rightarrow> Completed True (Next (router' (fst s1)) Params' h res req s1)))"

fun minima_range ::
  "(('pat, 'h) Route \<Rightarrow> string \<Rightarrow> bool \<times> 'ps) \<Rightarrow>
   ('pl \<Rightarrow> Response \<Rightarrow> Request \<Rightarrow> ('pat, 'h, 'pl, 'v) state' \<Rightarrow> ('pat, 'h, 'pl, 'v) state') \<Rightarrow>
   (('pat, 'h) Router' \<Rightarrow> 'ps \<Rightarrow> 'h \<Rightarrow> Response \<Rightarrow> Request \<Rightarrow>
      ('pat, 'h, 'pl, 'v) state' \<Rightarrow> ('pat, 'h, 'pl, 'v) state') \<Rightarrow>
   ResponseWriter \<Rightarrow> http_Request \<Rightarrow> ('pat, 'h) Route list \<Rightarrow>
   ('pat, 'h, 'pl, 'v) state' \<Rightarrow> ('pat, 'h, 'pl, 'v) state' loop_exit" where
  "minima_range matchingPath ServePlugin Next w q [] s = Completed False s"
| "minima_range matchingPath ServePlugin Next w q (requestQuery # rest) s =
     (case matchingPath requestQuery (Path q) of
        (isMatchRoute, Params') \<Rightarrow>
          if isMatchRoute then minima_matched ServePlugin Next w q requestQuery Params' s
          else minima_range matchingPath ServePlugin Next w q rest s)"

definition minima_ServeHTTP ::
  "(('pat, 'h) Route \<Rightarrow> string \<Rightarrow> bool \<times> 'ps) \<Rightarrow>
   ('pl \<Rightarrow> Response \<Rightarrow> Request \<Rightarrow> ('pat, 'h, 'pl, 'v) state' \<Rightarrow> ('pat, 'h, 'pl, 'v) state') \<Rightarrow>
   (('pat, 'h) Router' \<Rightarrow> 'ps \<Rightarrow> 'h \<Rightarrow> Response \<Rightarrow> Request \<Rightarrow>
      ('pat, 'h, 'pl, 'v) state' \<Rightarrow> ('pat, 'h, 'pl, 'v) state') \<Rightarrow>
   ResponseWriter \<Rightarrow> http_Request \<Rightarrow> ('pat, 'h, 'pl, 'v) state' \<Rightarrow>
   outcome \<times> ('pat, 'h, 'pl, 'v) state'" where
  "minima_ServeHTTP matchingPath ServePlugin Next w q s =
     (case minima_range matchingPath ServePlugin Next w q
             (routes' (router' (fst s)) (Method q)) s of
        Completed match s' \<Rightarrow>
          if \<not> match then (Returned, apsnd (Write w ''No matching route found'') s')
          else (Returned, s')
      | ReturnedInLoop s' \<Rightarrow> (Returned, s')
      | PanickedInLoop p s' \<Rightarrow> (Panicked p, s'))"

section \<open>What is observed of a dispatch\<close>



section \<open>Route resolution as the specification describes it\<close>

text \<open>
  Modelled from the spec: the route collection and its lookup (\<^verbatim>\<open>Routes.Get\<close>,
  called at the head of \<^verbatim>\<open>Minima.ServeHTTP\<close>) are not among the sources. What
  follows is \<open>match\<close> of section 4.1 and \<open>resolve\<close> of section 4.2 of the
  specification. A segment is "one slash-delimited token of a path; tagged as one of
  Literal(text), Param(name), Wildcard", a Route Pattern "an ordered sequence of
  Segments".
\<close>

datatype Segment = LiteralSeg string | ParamSeg string | WildcardSeg

type_synonym RoutePattern = "Segment list"

text \<open>
  Modelled from the spec: match "normalizes the request path (strip trailing slash,
  collapse to / for empty), splits into segments". One trailing slash is stripped; the
  segments are the tokens between the slashes after the leading one, and the root has
  none.
\<close>

fun tokens :: "string \<Rightarrow> string list" where
  "tokens [] = [[]]"
| "tokens (c # cs) =
     (if c = CHR ''/'' then [] # tokens cs
      else (case tokens cs of [] \<Rightarrow> [[c]] | t # ts \<Rightarrow> (c # t) # ts))"

definition normalize :: "string \<Rightarrow> string" where
  "normalize p =
     (let q = (if p \<noteq> [] \<and> last p = CHR ''/'' then butlast p else p)
      in if q = [] then ''/'' else q)"

definition segments :: "string \<Rightarrow> string list" where
  "segments p =
     (let q = normalize p;
          rest = (if q \<noteq> [] \<and> hd q = CHR ''/'' then tl q else q)
      in if rest = [] then [] else tokens rest)"

fun rejoin :: "string list \<Rightarrow> string" where
  "rejoin [] = []"
| "rejoin [s] = s"
| "rejoin (s # ss) = s @ ''/'' @ rejoin ss"

text \<open>
  Modelled from the spec: match "walks both sequences in lockstep". A literal "must
  equal the path segment exactly"; a parameter "captures the path segment verbatim
  under its name"; a wildcard "captures the remaining unconsumed suffix of the path
  (segments rejoined with /) under a reserved wildcard key and the walk terminates
  successfully regardless of remaining pattern length"; a "segment-count mismatch
  (absent a Wildcard) is a non-match". The Parameter Set is in insertion order, and of
  a name captured twice "the later capture wins". The specification does not name the
  reserved key: it is the parameter \<open>wk\<close>.
\<close>

fun walk :: "string \<Rightarrow> RoutePattern \<Rightarrow> string list \<Rightarrow> params \<Rightarrow> bool \<times> params" where
  "walk wk [] [] ps = (True, ps)"
| "walk wk (WildcardSeg # pat) segs ps = (True, AList.update wk (rejoin segs) ps)"
| "walk wk (LiteralSeg t # pat) (s # segs) ps =
     (if t = s then walk wk pat segs ps else (False, []))"
| "walk wk (ParamSeg n # pat) (s # segs) ps = walk wk pat segs (AList.update n s ps)"
| "walk wk pat segs ps = (False, [])"

definition match_pattern :: "string \<Rightarrow> RoutePattern \<Rightarrow> string \<Rightarrow> bool \<times> params" where
  "match_pattern wk pat path = walk wk pat (segments path) []"

text \<open>
  Modelled from the spec: the Route Table is a "mapping from HTTP method to an ordered
  list of (Route Pattern, Handler Chain) pairs", and resolve a "linear scan of the
  method's list in insertion order, returning the first structural match", with
  "found=false with empty handlers/params if none match or if the method itself has no
  registered routes".
\<close>

type_synonym 'h RouteTable = "string \<rightharpoonup> (RoutePattern \<times> 'h list) list"

fun scan ::
  "string \<Rightarrow> (RoutePattern \<times> 'h list) list \<Rightarrow> string \<Rightarrow> 'h list \<times> params \<times> bool" where
  "scan wk [] path = ([], [], False)"
| "scan wk ((pat, handlers) # rest) path =
     (case match_pattern wk pat path of
        (True, ps) \<Rightarrow> (handlers, ps, True)
      | (False, ps) \<Rightarrow> scan wk rest path)"

definition resolve ::
  "string \<Rightarrow> 'h RouteTable \<Rightarrow> string \<Rightarrow> string \<Rightarrow> 'h list \<times> params \<times> bool" where
  "resolve wk table method path =
     (case table method of
        None \<Rightarrow> ([], [], False)
      | Some entries \<Rightarrow> scan wk entries path)"







section \<open>Example handlers and instances\<close>

text \<open>
  Fixtures for running the dispatchers on concrete requests. \<open>mark tag\<close> is a Minima
  handler that writes \<open>tag\<close> to the response, \<open>mark_raw tag\<close> the raw handler that
  does the same, and \<open>set_prop key val\<close> a handler that stores a property.
  \<open>exact_Get\<close> is a route collection that matches a path exactly. \<open>app\<close> builds an
  instance through \<^verbatim>\<open>New\<close>, \<^verbatim>\<open>Use\<close> and \<^verbatim>\<open>UseRaw\<close>, with routes for
  \<^verbatim>\<open>GET\<close> only, and \<open>closed\<close> is a \<^verbatim>\<open>ListenAndServe\<close> that comes back at once.
\<close>

definition mark :: "string \<Rightarrow> 'v Handler" where
  "mark tag res req s = apsnd (Write (res_ref res) tag) s"

definition mark_raw :: "string \<Rightarrow> HandlerFunc" where
  "mark_raw tag w r wd = Write w tag wd"

definition set_prop :: "string \<Rightarrow> 'v \<Rightarrow> 'v Handler" where
  "set_prop key val res req s =
     apfst (\<lambda>ps. Some ((case ps of None \<Rightarrow> Map.empty | Some f \<Rightarrow> f)(key \<mapsto> val))) s"

definition exact_Get ::
  "(string \<times> 'v Handler) list \<Rightarrow> string \<Rightarrow> 'v Handler option \<times> params \<times> bool" where
  "exact_Get table path =
     (case map_of table path of
        None \<Rightarrow> (None, [], False)
      | Some h \<Rightarrow> (Some h, [], True))"

definition silence :: world where
  "silence = \<lparr>written = [], logged = []\<rparr>"

definition router_of ::
  "(string \<times> nat Handler) list \<Rightarrow> nat Handler option \<Rightarrow> ((string \<times> nat Handler) list, nat) Router" where
  "router_of table nf =
     \<lparr>routes = (\<lambda>method. if method = ''GET'' then table else []), notfound = nf\<rparr>"

definition app ::
  "(string \<times> nat Handler) list \<Rightarrow> HandlerFunc list \<Rightarrow> nat Handler list \<Rightarrow>
   nat Handler option \<Rightarrow> ((string \<times> nat Handler) list, nat) Minima" where
  "app table raws mins nf =
     Minima_UseRaw raws (Minima_Use mins (Minima_New (router_of table nf)))"

definition closed :: "http_Server \<Rightarrow> string" where
  "closed srv = ''http: Server closed''"

definition GET :: "string \<Rightarrow> string option \<Rightarrow> http_Request" where
  "GET path err = \<lparr>Method = ''GET'', Path = path, ParseForm = err\<rparr>"

text \<open>
  For the second variant: patterns are paths matched exactly, a handler and a plugin
  are tags, \<open>tag_ServePlugin\<close> writes the tag of every plugin and \<open>tag_Next\<close> the tag
  of the handler it is given.
\<close>

definition exact_matchingPath :: "(string, 'h) Route \<Rightarrow> string \<Rightarrow> bool \<times> params" where
  "exact_matchingPath requestQuery path = (pattern requestQuery = path, [])"

definition tag_ServePlugin ::
  "string list \<Rightarrow> Response \<Rightarrow> Request \<Rightarrow> 'a \<times> world \<Rightarrow> 'a \<times> world" where
  "tag_ServePlugin plugins res req s = apsnd (fold (Write (res_ref res)) plugins) s"

definition tag_Next ::
  "'rt \<Rightarrow> params \<Rightarrow> string \<Rightarrow> Response \<Rightarrow> Request \<Rightarrow> 'a \<times> world \<Rightarrow> 'a \<times> world" where
  "tag_Next rt ps h res req s = apsnd (Write (res_ref res) h) s"

definition app' ::
  "(string, string) Route list \<Rightarrow> string list \<Rightarrow> (string, string, string list, nat) minima" where
  "app' table plugins =
     \<lparr>router' = \<lparr>routes' = (\<lambda>method. if method = ''GET'' then table else [])\<rparr>,
      properties' = None, Middleware = plugins\<rparr>"

definition three_routes :: "(string, string) Route list" where
  "three_routes =
     [\<lparr>pattern = ''/b'', Handlers = [''b'']\<rparr>,
      \<lparr>pattern = ''/a'', Handlers = [''first'', ''then'']\<rparr>,
      \<lparr>pattern = ''/a'', Handlers = [''second'']\<rparr>]"

text \<open>
  For resolution as the specification describes it: two route tables that hold the
  same entries for \<^verbatim>\<open>GET\<close>, in the same order.
\<close>

definition users_table :: "string RouteTable" where
  "users_table =
     [''GET'' \<mapsto> [([LiteralSeg ''users'', ParamSeg ''id''], [''show'']),
                 ([LiteralSeg ''users'', LiteralSeg ''active''], [''active'']),
                 ([LiteralSeg ''files'', WildcardSeg], [''files''])]]"

definition users_table' :: "string RouteTable" where
  "users_table' = users_table(''POST'' \<mapsto> [([LiteralSeg ''users''], [''create''])])"

lemmas Minima_defs =
  Minima_ServeHTTP_def Minima_ServeMiddleware_def Minima_New_def Minima_Use_def
  Minima_UseRaw_def invoke_def invoke_raw_def Write_def log_Print_def response_def
  request_def Let_def

lemmas minima_defs =
  minima_ServeHTTP_def minima_matched_def Write_def log_Print_def response_def
  request_def Let_def

lemmas fixture_defs =
  mark_def mark_raw_def set_prop_def exact_Get_def silence_def router_of_def app_def
  GET_def

lemmas resolve_defs =
  resolve_def match_pattern_def segments_def normalize_def users_table_def users_table'_def

lemmas fixture_defs' =
  exact_matchingPath_def tag_ServePlugin_def tag_Next_def app'_def three_routes_def
  silence_def GET_def

section \<open>What a call leaves alone\<close>

lemma invoke_frame:
  "router (fst (invoke h s)) = router (fst s)"
  "minmiddleware (fst (invoke h s)) = minmiddleware (fst s)"
  "rawmiddleware (fst (invoke h s)) = rawmiddleware (fst s)"
  by (simp_all add: invoke_def split: prod.splits)

lemma invoke_raw_fst: "fst (invoke_raw h s) = fst s"
  by (simp add: invoke_raw_def)

lemma fold_invoke_raw_fst: "fst (fold (\<lambda>raw. invoke_raw (g raw)) raws s) = fst s"
  by (induction raws arbitrary: s) (simp_all add: invoke_raw_fst)

lemma fold_invoke_frame:
  "router (fst (fold (\<lambda>min. invoke (g min)) mins s)) = router (fst s)"
  "minmiddleware (fst (fold (\<lambda>min. invoke (g min)) mins s)) = minmiddleware (fst s)"
  "rawmiddleware (fst (fold (\<lambda>min. invoke (g min)) mins s)) = rawmiddleware (fst s)"
  by (induction mins arbitrary: s) (simp_all add: invoke_frame)

lemma Minima_ServeMiddleware_frame:
  "router (fst (Minima_ServeMiddleware res req s)) = router (fst s)"
  "minmiddleware (fst (Minima_ServeMiddleware res req s)) = minmiddleware (fst s)"
  "rawmiddleware (fst (Minima_ServeMiddleware res req s)) = rawmiddleware (fst s)"
  by (simp_all add: Minima_ServeMiddleware_def Let_def fold_invoke_frame fold_invoke_raw_fst)

section \<open>The loop of the second variant\<close>


lemma minima_range_first_match:
  assumes "\<forall>x \<in> set pre. \<not> fst (mp x (Path q))" and "mp rq (Path q) = (True, ps)"
  shows "minima_range mp SP NX w q (pre @ rq # post) s = minima_matched SP NX w q rq ps s"
  using assms by (induction pre) (auto split: prod.splits)

lemma minima_range_match_form_error:
  assumes "\<exists>x \<in> set rs. fst (mp x (Path q))" and "ParseForm q = Some err"
  shows "minima_range mp SP NX w q rs s =
     ReturnedInLoop (apsnd (log_Print (''Error parsing form: '' @ err)) s)"
  using assms by (induction rs) (auto simp: minima_matched_def split: prod.splits)


section \<open>The middleware pipeline of a matched request\<close>

text \<open>Registration appends, so each stack is in registration order.\<close>

lemma Minima_Use_appends:
  "minmiddleware (Minima_Use hs m) = minmiddleware m @ hs"
  "rawmiddleware (Minima_Use hs m) = rawmiddleware m"
  by (simp_all add: Minima_Use_def)

lemma Minima_UseRaw_appends:
  "rawmiddleware (Minima_UseRaw hs m) = rawmiddleware m @ hs"
  "minmiddleware (Minima_UseRaw hs m) = minmiddleware m"
  by (simp_all add: Minima_UseRaw_def)

text \<open>With a raw handler registered, \<^verbatim>\<open>ServeMiddleware\<close> runs the raw stack and then
  the Minima stack, each front to back.\<close>

lemma Minima_ServeMiddleware_nonempty:
  assumes "rawmiddleware (fst s) \<noteq> []"
  shows "Minima_ServeMiddleware res req s =
     fold (\<lambda>min. invoke (min res req)) (minmiddleware (fst s))
       (fold (\<lambda>raw. invoke_raw (raw (res_ref res) (req_ref req))) (rawmiddleware (fst s)) s)"
  using assms by (simp add: Minima_ServeMiddleware_def Let_def fold_invoke_raw_fst)

text \<open>With no raw handler registered it returns at once: the Minima stack is not run.\<close>

lemma Minima_ServeMiddleware_no_raw:
  assumes "rawmiddleware (fst s) = []"
  shows "Minima_ServeMiddleware res req s = s"
  using assms by (simp add: Minima_ServeMiddleware_def)

text \<open>
  C1, as stated, fails on two matched requests. On the first, form parsing fails:
  \<^verbatim>\<open>ServeHTTP\<close> logs and returns, and neither the registered raw handler, nor the
  registered Minima handler, nor the route's handler has written. On the second, form
  parsing succeeds and no raw handler is registered: the first early return of
  \<^verbatim>\<open>ServeMiddleware\<close> skips the registered Minima handler \<open>mark ''min''\<close>, and only the
  route's handler has written.
\<close>

theorem Minima_ServeHTTP_middleware_skipped:
  "snd (snd (Minima_ServeHTTP exact_Get 0 (GET ''/'' (Some ''bad''))
       (app [(''/'', mark ''route'')] [mark_raw ''raw''] [mark ''min''] None, silence)))
     = \<lparr>written = [], logged = [''Error parsing form: bad'']\<rparr>
   \<and> snd (snd (Minima_ServeHTTP exact_Get 0 (GET ''/'' None)
       (app [(''/'', mark ''route'')] [] [mark ''min''] None, silence)))
     = \<lparr>written = [''route''], logged = []\<rparr>"
  by (simp add: Minima_defs fixture_defs)

text \<open>
  C1, amended: for every matched request whose form parsing succeeds, on an instance
  with at least one raw middleware handler, \<^verbatim>\<open>ServeHTTP\<close> runs every raw handler in
  registration order, then every Minima handler in registration order, each on the same
  response and request (with the captured parameters attached), and then the matched
  route's handler; it returns normally.
\<close>

theorem Minima_ServeHTTP_matched_pipeline:
  assumes "Get (routes (router m) (Method r)) (Path r) = (Some f, ps, True)"
    and "ParseForm r = None"
    and "rawmiddleware m \<noteq> []"
  shows "Minima_ServeHTTP Get w r (m, wd) =
     (Returned,
      invoke (f (response w r) ((request r)\<lparr>Params := ps\<rparr>))
        (fold (\<lambda>min. invoke (min (response w r) ((request r)\<lparr>Params := ps\<rparr>)))
           (minmiddleware m)
           (fold (\<lambda>raw. invoke_raw (raw w r)) (rawmiddleware m) (m, wd))))"
  using assms
  by (simp add: Minima_ServeHTTP_def Let_def Minima_ServeMiddleware_nonempty
      response_def request_def)

theorem Minima_ServeHTTP_matched_pipeline_witness:
  "exact_Get (routes (router (app [(''/'', mark ''route'')] [mark_raw ''raw1'', mark_raw ''raw2'']
        [mark ''min1'', mark ''min2''] None)) (Method (GET ''/'' None))) (Path (GET ''/'' None))
     = (Some (mark ''route''), [], True)
   \<and> ParseForm (GET ''/'' None) = None
   \<and> rawmiddleware (app [(''/'', mark ''route'')] [mark_raw ''raw1'', mark_raw ''raw2'']
        [mark ''min1'', mark ''min2''] None) \<noteq> []
   \<and> snd (snd (Minima_ServeHTTP exact_Get 0 (GET ''/'' None)
       (app [(''/'', mark ''route'')] [mark_raw ''raw1'', mark_raw ''raw2'']
          [mark ''min1'', mark ''min2''] None, silence)))
     = \<lparr>written = [''raw1'', ''raw2'', ''min1'', ''min2'', ''route''], logged = []\<rparr>"
proof -
  let ?m = "app [(''/'', mark ''route'')] [mark_raw ''raw1'', mark_raw ''raw2'']
        [mark ''min1'', mark ''min2''] None"
  let ?r = "GET ''/'' None"
  have lookup: "exact_Get (routes (router ?m) (Method ?r)) (Path ?r)
      = (Some (mark ''route''), [], True)"
    by (simp add: Minima_defs fixture_defs)
  have parsed: "ParseForm ?r = None"
    by (simp add: GET_def)
  have raws: "rawmiddleware ?m \<noteq> []"
    by (simp add: Minima_defs fixture_defs)
  have run: "snd (snd (Minima_ServeHTTP exact_Get 0 ?r (?m, silence)))
      = \<lparr>written = [''raw1'', ''raw2'', ''min1'', ''min2'', ''route''], logged = []\<rparr>"
    using Minima_ServeHTTP_matched_pipeline
      [where Get = exact_Get and m = ?m and r = ?r and w = 0 and wd = silence,
       OF lookup parsed raws]
    by (simp add: Minima_defs fixture_defs)
  from lookup parsed raws run show ?thesis by simp
qed

section \<open>Requests that match no route\<close>

text \<open>
  C2, as stated, fails: on a request that matches no route, \<^verbatim>\<open>ServeHTTP\<close> takes its
  else branch, which never calls \<^verbatim>\<open>ServeMiddleware\<close>. Here a raw and a Minima
  handler are registered and form parsing succeeds, and the response holds the
  fallback body alone.
\<close>

theorem Minima_ServeHTTP_unmatched_runs_no_middleware:
  "snd (snd (Minima_ServeHTTP exact_Get 0 (GET ''/missing'' None)
       (app [(''/'', mark ''route'')] [mark_raw ''raw''] [mark ''min''] None, silence)))
     = \<lparr>written = [''No matching route found''], logged = []\<rparr>"
  by (simp add: Minima_defs fixture_defs)

text \<open>
  C2, amended: global middleware runs only once a route has matched. For every request
  that matches no route, no registered global middleware runs: the outcome, the response
  and log, and the properties after the dispatch are the same whatever the two
  middleware stacks hold.
\<close>

theorem Minima_ServeHTTP_unmatched_ignores_middleware:
  assumes "Get (routes (router m) (Method r)) (Path r) = (f, ps, False)"
  shows "fst (Minima_ServeHTTP Get w r (m\<lparr>rawmiddleware := raws, minmiddleware := mins\<rparr>, wd))
           = fst (Minima_ServeHTTP Get w r (m, wd))
       \<and> snd (snd (Minima_ServeHTTP Get w r
                     (m\<lparr>rawmiddleware := raws, minmiddleware := mins\<rparr>, wd)))
           = snd (snd (Minima_ServeHTTP Get w r (m, wd)))
       \<and> properties (fst (snd (Minima_ServeHTTP Get w r
                     (m\<lparr>rawmiddleware := raws, minmiddleware := mins\<rparr>, wd))))
           = properties (fst (snd (Minima_ServeHTTP Get w r (m, wd))))"
  using assms
  by (simp add: Minima_ServeHTTP_def Let_def invoke_def split: option.splits prod.splits)

theorem Minima_ServeHTTP_unmatched_ignores_middleware_witness:
  "exact_Get (routes (router (app [(''/'', mark ''route'')] [] [] None))
       (Method (GET ''/missing'' None))) (Path (GET ''/missing'' None)) = (None, [], False)
   \<and> snd (snd (Minima_ServeHTTP exact_Get 0 (GET ''/missing'' None)
         ((app [(''/'', mark ''route'')] [] [] None)
            \<lparr>rawmiddleware := [mark_raw ''raw''], minmiddleware := [mark ''min'']\<rparr>, silence)))
       = snd (snd (Minima_ServeHTTP exact_Get 0 (GET ''/missing'' None)
         (app [(''/'', mark ''route'')] [] [] None, silence)))"
proof -
  let ?r = "GET ''/missing'' None"
  let ?m = "app [(''/'', mark ''route'')] [] [] None"
  have miss: "exact_Get (routes (router ?m) (Method ?r)) (Path ?r) = (None, [], False)"
    by (simp add: Minima_defs fixture_defs)
  from Minima_ServeHTTP_unmatched_ignores_middleware
      [where Get = exact_Get and m = ?m and r = ?r and w = 0 and wd = silence
        and raws = "[mark_raw ''raw'']" and mins = "[mark ''min'']", OF miss] miss
  show ?thesis by simp
qed

text \<open>
  C3: for every request for which the lookup reports no match, \<^verbatim>\<open>Minima.ServeHTTP\<close>
  returns normally, having invoked the not-found handler if one is set, and having
  written the chunk \<open>''No matching route found''\<close> to the response, and nothing else,
  if none is set.
\<close>

theorem Minima_ServeHTTP_not_found:
  assumes "Get (routes (router m) (Method r)) (Path r) = (f, ps, False)"
  shows "Minima_ServeHTTP Get w r (m, wd) =
     (Returned,
      case notfound (router m) of
        Some h \<Rightarrow> invoke (h (response w r) (request r)) (m, wd)
      | None \<Rightarrow> (m, wd\<lparr>written := written wd @ [''No matching route found'']\<rparr>))"
  using assms
  by (simp add: Minima_ServeHTTP_def Let_def Write_def split: option.splits)

theorem Minima_ServeHTTP_not_found_witness:
  "exact_Get (routes (router (app [(''/'', mark ''route'')] [] [] None))
       (Method (GET ''/missing'' None))) (Path (GET ''/missing'' None)) = (None, [], False)
   \<and> Minima_ServeHTTP exact_Get 0 (GET ''/missing'' None)
         (app [(''/'', mark ''route'')] [] [] None, silence)
       = (Returned, (app [(''/'', mark ''route'')] [] [] None,
            \<lparr>written = [''No matching route found''], logged = []\<rparr>))
   \<and> exact_Get (routes (router (app [(''/'', mark ''route'')] [] [] (Some (mark ''custom''))))
         (Method (GET ''/missing'' None))) (Path (GET ''/missing'' None)) = (None, [], False)
   \<and> snd (snd (Minima_ServeHTTP exact_Get 0 (GET ''/missing'' None)
         (app [(''/'', mark ''route'')] [] [] (Some (mark ''custom'')), silence)))
       = \<lparr>written = [''custom''], logged = []\<rparr>"
proof -
  let ?r = "GET ''/missing'' None"
  let ?m = "app [(''/'', mark ''route'')] [] [] None"
  let ?n = "app [(''/'', mark ''route'')] [] [] (Some (mark ''custom''))"
  have miss: "exact_Get (routes (router ?m) (Method ?r)) (Path ?r) = (None, [], False)"
    by (simp add: Minima_defs fixture_defs)
  have miss': "exact_Get (routes (router ?n) (Method ?r)) (Path ?r) = (None, [], False)"
    by (simp add: Minima_defs fixture_defs)
  have fallback: "Minima_ServeHTTP exact_Get 0 ?r (?m, silence)
      = (Returned, (?m, \<lparr>written = [''No matching route found''], logged = []\<rparr>))"
    using Minima_ServeHTTP_not_found
      [where Get = exact_Get and m = ?m and r = ?r and w = 0 and wd = silence, OF miss]
    by (simp add: Minima_defs fixture_defs)
  have custom: "snd (snd (Minima_ServeHTTP exact_Get 0 ?r (?n, silence)))
      = \<lparr>written = [''custom''], logged = []\<rparr>"
    using Minima_ServeHTTP_not_found
      [where Get = exact_Get and m = ?n and r = ?r and w = 0 and wd = silence, OF miss']
    by (simp add: Minima_defs fixture_defs)
  from miss miss' fallback custom show ?thesis by simp
qed

section \<open>The first match wins\<close>

text \<open>
  C4: the second \<^verbatim>\<open>ServeHTTP\<close> scans the method's route list front to back, and
  the first element whose \<^verbatim>\<open>matchingPath\<close> answers true decides the dispatch: the
  head of its handler chain goes to \<^verbatim>\<open>Router.Next\<close> with its parameters. The
  result is stated in terms of that element alone, so it is the same whatever follows
  it in the list.
\<close>

theorem minima_ServeHTTP_first_match_wins:
  assumes "routes' (router' m) (Method q) = pre @ rq # post"
    and "\<forall>x \<in> set pre. \<not> fst (mp x (Path q))"
    and "mp rq (Path q) = (True, ps)"
  shows "minima_ServeHTTP mp SP NX w q (m, wd) =
     (case ParseForm q of
        Some err \<Rightarrow> (Returned, (m, wd\<lparr>logged := logged wd @ [''Error parsing form: '' @ err]\<rparr>))
      | None \<Rightarrow>
          (case Handlers rq of
             [] \<Rightarrow> (Panicked IndexOutOfRange, SP (Middleware m) (response w q) (request q) (m, wd))
           | h # hs \<Rightarrow>
               (Returned,
                NX (router' (fst (SP (Middleware m) (response w q) (request q) (m, wd)))) ps h
                   (response w q) (request q)
                   (SP (Middleware m) (response w q) (request q) (m, wd)))))"
  using assms
  by (simp add: minima_ServeHTTP_def minima_range_first_match minima_matched_def Let_def
      log_Print_def split: option.splits list.splits)

theorem minima_ServeHTTP_first_match_wins_witness:
  "routes' (router' (app' three_routes [''plugin''])) (Method (GET ''/a'' None))
       = [\<lparr>pattern = ''/b'', Handlers = [''b'']\<rparr>]
         @ \<lparr>pattern = ''/a'', Handlers = [''first'', ''then'']\<rparr>
         # [\<lparr>pattern = ''/a'', Handlers = [''second'']\<rparr>]
   \<and> \<not> fst (exact_matchingPath \<lparr>pattern = ''/b'', Handlers = [''b'']\<rparr>
         (Path (GET ''/a'' None)))
   \<and> exact_matchingPath \<lparr>pattern = ''/a'', Handlers = [''first'', ''then'']\<rparr>
         (Path (GET ''/a'' None)) = (True, [])
   \<and> minima_ServeHTTP exact_matchingPath tag_ServePlugin tag_Next 0 (GET ''/a'' None)
         (app' three_routes [''plugin''], silence)
       = (Returned, (app' three_routes [''plugin''],
            \<lparr>written = [''plugin'', ''first''], logged = []\<rparr>))"
proof -
  let ?q = "GET ''/a'' None"
  let ?m = "app' three_routes [''plugin'']"
  let ?pre = "[\<lparr>pattern = ''/b'', Handlers = [''b'']\<rparr>]"
  let ?rq = "\<lparr>pattern = ''/a'', Handlers = [''first'', ''then'']\<rparr>"
  let ?post = "[\<lparr>pattern = ''/a'', Handlers = [''second'']\<rparr>]"
  have table: "routes' (router' ?m) (Method ?q) = ?pre @ ?rq # ?post"
    by (simp add: fixture_defs')
  have before: "\<forall>x \<in> set ?pre. \<not> fst (exact_matchingPath x (Path ?q))"
    by (simp add: fixture_defs')
  have hit: "exact_matchingPath ?rq (Path ?q) = (True, [])"
    by (simp add: fixture_defs')
  have run: "minima_ServeHTTP exact_matchingPath tag_ServePlugin tag_Next 0 ?q (?m, silence)
      = (Returned, (?m, \<lparr>written = [''plugin'', ''first''], logged = []\<rparr>))"
    using minima_ServeHTTP_first_match_wins
      [where mp = exact_matchingPath and m = ?m and q = ?q and SP = tag_ServePlugin
        and NX = tag_Next and w = 0 and wd = silence, OF table before hit]
    by (simp add: minima_defs fixture_defs')
  from table before hit run show ?thesis by simp
qed

section \<open>The two dispatchers side by side\<close>





section \<open>What a dispatch leaves alone\<close>

text \<open>
  C6: for every request, the routes and the not-found handler of the router and the two
  middleware stacks of the instance are the same after \<^verbatim>\<open>Minima.ServeHTTP\<close> as
  before it, whatever the handlers do with what they are given.
\<close>

theorem Minima_ServeHTTP_frame:
  "routes (router (fst (snd (Minima_ServeHTTP Get w r s)))) = routes (router (fst s))
   \<and> notfound (router (fst (snd (Minima_ServeHTTP Get w r s)))) = notfound (router (fst s))
   \<and> minmiddleware (fst (snd (Minima_ServeHTTP Get w r s))) = minmiddleware (fst s)
   \<and> rawmiddleware (fst (snd (Minima_ServeHTTP Get w r s))) = rawmiddleware (fst s)"
  by (simp add: Minima_ServeHTTP_def Let_def invoke_frame Minima_ServeMiddleware_frame
      split: option.splits prod.splits)

theorem Minima_ServeHTTP_frame_witness:
  "routes (router (fst (snd (Minima_ServeHTTP exact_Get 0 (GET ''/'' None)
        (app [(''/'', set_prop ''seen'' 1)] [mark_raw ''raw''] [mark ''min''] None, silence)))))
     = routes (router_of [(''/'', set_prop ''seen'' 1)] None)
   \<and> length (rawmiddleware (fst (snd (Minima_ServeHTTP exact_Get 0 (GET ''/'' None)
        (app [(''/'', set_prop ''seen'' 1)] [mark_raw ''raw''] [mark ''min''] None, silence)))))
     = 1
   \<and> length (minmiddleware (fst (snd (Minima_ServeHTTP exact_Get 0 (GET ''/'' None)
        (app [(''/'', set_prop ''seen'' 1)] [mark_raw ''raw''] [mark ''min''] None, silence)))))
     = 1"
  using Minima_ServeHTTP_frame [where Get = exact_Get and w = 0 and r = "GET ''/'' None"
      and s = "(app [(''/'', set_prop ''seen'' 1)] [mark_raw ''raw''] [mark ''min''] None,
               silence)"]
  by (simp add: app_def Minima_New_def Minima_Use_def Minima_UseRaw_def)

text \<open>The properties are not part of that frame: a handler reaches them through the
  response wrapper, and a dispatch can leave them changed.\<close>

lemma Minima_ServeHTTP_may_set_properties:
  "Minima_GetProp ''seen'' (app [(''/'', set_prop ''seen'' 1)] [] [] None) = None
   \<and> Minima_GetProp ''seen'' (fst (snd (Minima_ServeHTTP exact_Get 0 (GET ''/'' None)
        (app [(''/'', set_prop ''seen'' 1)] [] [] None, silence)))) = Some 1"
  by (simp add: Minima_defs fixture_defs Minima_GetProp_def)

section \<open>Resolution is repeatable\<close>

text \<open>The modelled resolution on the examples of the specification: a parameter capture,
  registration order before specificity, a wildcard tail, a path and a method without
  a route.\<close>

lemma resolve_examples:
  "resolve ''rest'' users_table ''GET'' ''/users/42'' = ([''show''], [(''id'', ''42'')], True)"
  "resolve ''rest'' users_table ''GET'' ''/users/active''
     = ([''show''], [(''id'', ''active'')], True)"
  "resolve ''rest'' users_table ''GET'' ''/files/a/b/c''
     = ([''files''], [(''rest'', ''a/b/c'')], True)"
  "resolve ''rest'' users_table ''GET'' ''/ping'' = ([], [], False)"
  "resolve ''rest'' users_table ''POST'' ''/users/42'' = ([], [], False)"
  by (simp_all add: resolve_defs)









section \<open>Properties of a fresh instance\<close>

text \<open>
  C8: \<^verbatim>\<open>New\<close> leaves the properties map nil, so on a fresh instance
  \<^verbatim>\<open>SetProp\<close> panics for every key and value, and \<^verbatim>\<open>GetProp\<close> returns the zero
  value for every key.
\<close>

theorem Minima_New_properties_nil:
  "Minima_SetProp key val (Minima_New NewRouter) = Inl NilMapAssignment
   \<and> Minima_GetProp key (Minima_New NewRouter) = None"
  by (simp add: Minima_SetProp_def Minima_GetProp_def Minima_New_def)

theorem Minima_New_properties_nil_witness:
  "Minima_SetProp ''name'' 1 (Minima_New (router_of [] None)) = Inl NilMapAssignment
   \<and> Minima_GetProp ''name'' (Minima_New (router_of [] None)) = None"
  using Minima_New_properties_nil
    [where key = "''name''" and val = 1 and NewRouter = "router_of [] None"]
  by simp

text \<open>On an instance whose map has been made, \<^verbatim>\<open>SetProp\<close> stores and
  \<^verbatim>\<open>GetProp\<close> reads back.\<close>

lemma Minima_SetProp_GetProp:
  assumes "properties m = Some ps"
  shows "\<exists>m'. Minima_SetProp key val m = Inr m' \<and> Minima_GetProp key m' = Some val"
  using assms by (simp add: Minima_SetProp_def Minima_GetProp_def)

section \<open>A form that does not parse\<close>

text \<open>
  C9: for every matched request whose form parsing fails, both dispatchers return at
  once. The instance is as it was, so no handler has touched the properties; the
  response is as it was, so nothing has been written; and the log has gained the one
  line \<open>''Error parsing form: ''\<close> followed by the error. No middleware, plugin or
  route handler occurs in the result.
\<close>

theorem ServeHTTP_form_error_aborts:
  "(ParseForm r = Some err \<longrightarrow>
      Get (routes (router m) (Method r)) (Path r) = (f, ps, True) \<longrightarrow>
      Minima_ServeHTTP Get w r (m, wd) =
        (Returned, (m, wd\<lparr>logged := logged wd @ [''Error parsing form: '' @ err]\<rparr>)))
   \<and> (ParseForm r = Some err \<longrightarrow>
      (\<exists>rq \<in> set (routes' (router' m') (Method r)). fst (mp rq (Path r))) \<longrightarrow>
      minima_ServeHTTP mp SP NX w r (m', wd) =
        (Returned, (m', wd\<lparr>logged := logged wd @ [''Error parsing form: '' @ err]\<rparr>)))"
proof (intro conjI impI)
  assume "ParseForm r = Some err" "Get (routes (router m) (Method r)) (Path r) = (f, ps, True)"
  then show "Minima_ServeHTTP Get w r (m, wd) =
        (Returned, (m, wd\<lparr>logged := logged wd @ [''Error parsing form: '' @ err]\<rparr>))"
    by (simp add: Minima_ServeHTTP_def log_Print_def)
next
  assume pf: "ParseForm r = Some err"
    and hit: "\<exists>rq \<in> set (routes' (router' m') (Method r)). fst (mp rq (Path r))"
  from hit pf have "minima_range mp SP NX w r (routes' (router' m') (Method r)) (m', wd)
      = ReturnedInLoop (apsnd (log_Print (''Error parsing form: '' @ err)) (m', wd))"
    by (rule minima_range_match_form_error)
  then show "minima_ServeHTTP mp SP NX w r (m', wd) =
        (Returned, (m', wd\<lparr>logged := logged wd @ [''Error parsing form: '' @ err]\<rparr>))"
    by (simp add: minima_ServeHTTP_def log_Print_def)
qed

theorem ServeHTTP_form_error_aborts_witness:
  "ParseForm (GET ''/a'' (Some ''bad'')) = Some ''bad''
   \<and> exact_Get (routes (router (app [(''/a'', mark ''route'')] [mark_raw ''raw'']
          [mark ''min''] None)) (Method (GET ''/a'' (Some ''bad''))))
        (Path (GET ''/a'' (Some ''bad''))) = (Some (mark ''route''), [], True)
   \<and> map (\<lambda>rq. fst (exact_matchingPath rq (Path (GET ''/a'' (Some ''bad'')))))
         (routes' (router' (app' three_routes [''plugin'']))
            (Method (GET ''/a'' (Some ''bad''))))
       = [False, True, True]
   \<and> Minima_ServeHTTP exact_Get 0 (GET ''/a'' (Some ''bad''))
        (app [(''/a'', mark ''route'')] [mark_raw ''raw''] [mark ''min''] None, silence)
       = (Returned, (app [(''/a'', mark ''route'')] [mark_raw ''raw''] [mark ''min''] None,
            \<lparr>written = [], logged = [''Error parsing form: bad'']\<rparr>))
   \<and> minima_ServeHTTP exact_matchingPath tag_ServePlugin tag_Next 0 (GET ''/a'' (Some ''bad''))
        (app' three_routes [''plugin''], silence)
       = (Returned, (app' three_routes [''plugin''],
            \<lparr>written = [], logged = [''Error parsing form: bad'']\<rparr>))"
proof -
  let ?q = "GET ''/a'' (Some ''bad'')"
  let ?m = "app [(''/a'', mark ''route'')] [mark_raw ''raw''] [mark ''min''] None"
  let ?m' = "app' three_routes [''plugin'']"
  have bad: "ParseForm ?q = Some ''bad''"
    by (simp add: GET_def)
  have hit: "exact_Get (routes (router ?m) (Method ?q)) (Path ?q)
      = (Some (mark ''route''), [], True)"
    by (simp add: Minima_defs fixture_defs)
  have hit': "\<exists>rq \<in> set (routes' (router' ?m') (Method ?q)).
      fst (exact_matchingPath rq (Path ?q))"
    by (simp add: fixture_defs')
  note both = ServeHTTP_form_error_aborts
      [where r = ?q and err = "''bad''" and Get = exact_Get and m = ?m and m' = ?m'
        and mp = exact_matchingPath and SP = tag_ServePlugin and NX = tag_Next and w = 0
        and wd = silence and f = "Some (mark ''route'')" and ps = "[]"]
  from both bad hit have one: "Minima_ServeHTTP exact_Get 0 ?q (?m, silence)
       = (Returned, (?m, \<lparr>written = [], logged = [''Error parsing form: bad'']\<rparr>))"
    by (simp add: silence_def)
  from both bad hit'
  have two: "minima_ServeHTTP exact_matchingPath tag_ServePlugin tag_Next 0 ?q (?m', silence)
       = (Returned, (?m', \<lparr>written = [], logged = [''Error parsing form: bad'']\<rparr>))"
    by (simp add: silence_def)
  have flags: "map (\<lambda>rq. fst (exact_matchingPath rq (Path ?q))) (routes' (router' ?m') (Method ?q))
      = [False, True, True]"
    by (simp add: fixture_defs')
  from bad hit flags one two show ?thesis by blast
qed

section \<open>Listening twice\<close>

text \<open>
  C10: \<^verbatim>\<open>Listen\<close> on an instance that is already started panics instead of
  returning an error, through \<^verbatim>\<open>log.Panicf\<close> with the address of the running
  server. On an instance that is not started it records the server, sets
  \<^verbatim>\<open>started\<close>, and returns what \<^verbatim>\<open>ListenAndServe\<close> returns; after that, a
  further \<^verbatim>\<open>Listen\<close> panics.
\<close>

theorem Minima_Listen_once:
  "(started m \<longrightarrow> isl (fst (Minima_Listen ListenAndServe addr (m, wd))))
   \<and> (started m \<longrightarrow> server m = Some srv \<longrightarrow>
      Minima_Listen ListenAndServe addr (m, wd) =
        (Inl (LogPanic (already_running (Addr srv))),
         (m, wd\<lparr>logged := logged wd @ [already_running (Addr srv)]\<rparr>)))
   \<and> (\<not> started m \<longrightarrow>
      Minima_Listen ListenAndServe addr (m, wd) =
        (Inr (ListenAndServe \<lparr>Addr = addr\<rparr>),
         (m\<lparr>server := Some \<lparr>Addr = addr\<rparr>, started := True\<rparr>, wd)))
   \<and> (\<not> started m \<longrightarrow>
      fst (Minima_Listen ListenAndServe addr' (snd (Minima_Listen ListenAndServe addr (m, wd))))
        = Inl (LogPanic (already_running addr)))"
  by (simp add: Minima_Listen_def Let_def log_Print_def split: option.splits)

theorem Minima_Listen_once_witness:
  "\<not> started (app [] [] [] None)
   \<and> Minima_Listen closed '':3000'' (app [] [] [] None, silence)
       = (Inr ''http: Server closed'',
          ((app [] [] [] None)\<lparr>server := Some \<lparr>Addr = '':3000''\<rparr>, started := True\<rparr>, silence))
   \<and> started ((app [] [] [] None)\<lparr>server := Some \<lparr>Addr = '':3000''\<rparr>, started := True\<rparr>)
   \<and> server ((app [] [] [] None)\<lparr>server := Some \<lparr>Addr = '':3000''\<rparr>, started := True\<rparr>)
       = Some \<lparr>Addr = '':3000''\<rparr>
   \<and> fst (Minima_Listen closed '':4000''
         ((app [] [] [] None)\<lparr>server := Some \<lparr>Addr = '':3000''\<rparr>, started := True\<rparr>, silence))
       = Inl (LogPanic (already_running '':3000''))"
proof -
  let ?m = "app [] [] [] None"
  let ?m' = "?m\<lparr>server := Some \<lparr>Addr = '':3000''\<rparr>, started := True\<rparr>"
  have fresh: "\<not> started ?m"
    by (simp add: app_def Minima_New_def Minima_Use_def Minima_UseRaw_def)
  have running: "started ?m'" "server ?m' = Some \<lparr>Addr = '':3000''\<rparr>"
    by simp_all
  note first = Minima_Listen_once
      [where m = ?m and ListenAndServe = closed and addr = "'':3000''" and wd = silence]
  note second = Minima_Listen_once
      [where m = ?m' and ListenAndServe = closed and addr = "'':4000''" and wd = silence
        and srv = "\<lparr>Addr = '':3000''\<rparr>"]
  from first fresh have a: "Minima_Listen closed '':3000'' (?m, silence)
       = (Inr ''http: Server closed'', (?m', silence))"
    by (simp add: closed_def)
  from second running have b: "fst (Minima_Listen closed '':4000'' (?m', silence))
       = Inl (LogPanic (already_running '':3000''))"
    by simp
  from fresh running a b show ?thesis by blast
qed

end
